theory Spec2Isabelle
  imports Complex_Main
begin

section \<open>Melakarta rule engine (generate\_melakartas.py)\<close>

text \<open>
  Python raises \<open>IndexError\<close> when a list is indexed out of range, and counts a
  negative index from the end of the list. Both are part of the model, so that every
  subscript of the source is a branch that may fail.
\<close>

datatype error = IndexError | ValueError

fun py_index :: "'a list \<Rightarrow> int \<Rightarrow> error + 'a" where
  "py_index xs i =
     (if 0 \<le> i \<and> i < int (length xs) then Inr (xs ! nat i)
      else if - int (length xs) \<le> i \<and> i < 0 then Inr (xs ! nat (i + int (length xs)))
      else Inl IndexError)"

text \<open>The table \<open>MELAKARTA_NAMES\<close>, in the order of the source.\<close>

definition MELAKARTA_NAMES :: "string list" where
  "MELAKARTA_NAMES =
    [''Kanakangi'', ''Ratnangi'', ''Ganamurti'', ''Vanaspati'', ''Manavati'', ''Tanarupi'',
     ''Senavati'', ''Hanumattodi'', ''Dhenuka'', ''Natakapriya'', ''Kokilapriya'', ''Rupavati'',
     ''Gayakapriya'', ''Vakulabharanam'', ''Mayamalavagowla'', ''Chakravakam'', ''Suryakantam'',
     ''Hatakambari'',
     ''Jhankaradhwani'', ''Natabhairavi'', ''Kiravani'', ''Kharaharapriya'', ''Gourimanohari'',
     ''Varunapriya'',
     ''Mararanjani'', ''Charukesi'', ''Sarasangi'', ''Harikambhoji'', ''Dheerasankarabharanam'',
     ''Naganandini'',
     ''Yagapriya'', ''Ragavardhani'', ''Gangeyabhushani'', ''Vagadheeswari'', ''Shulini'',
     ''Chalanata'',
     ''Salagam'', ''Jalarnavam'', ''Jhalavarali'', ''Navaneetam'', ''Pavani'', ''Raghupriya'',
     ''Gavambodhi'', ''Bhavapriya'', ''Shubhapantuvarali'', ''Shadvidamargini'', ''Suvarnangi'',
     ''Divyamani'',
     ''Dhavalambari'', ''Namanarayani'', ''Kamavardhani'', ''Ramapriya'', ''Gamanashrama'',
     ''Viswambari'',
     ''Shyamalangi'', ''Shanmukhapriya'', ''Simhendramadhyamam'', ''Hemavati'', ''Dharmavati'',
     ''Neetimati'',
     ''Kantamani'', ''Rishabhapriya'', ''Latangi'', ''Vachaspati'', ''Mechakalyani'',
     ''Chitrambari'',
     ''Sucharitra'', ''Jyotiswarupini'', ''Dhatuvardhani'', ''Nasikabhushani'', ''Kosalam'',
     ''Rasikapriya'']"

text \<open>
  The madhyama choice of lines 72-79: the label, its interval and the adjusted number.
\<close>

definition madhyama :: "int \<Rightarrow> string \<times> int \<times> int" where
  "madhyama raga_number =
     (if raga_number \<le> 36 then (''M1'', 5, raga_number)
      else (''M2'', 6, raga_number - 36))"

text \<open>
  The branch on the chakra of lines 86-113, giving \<open>(R, R_int, G, G_int)\<close>. Chakras 1
  and 2 share one body, which subscripts two literal lists; the last branch is an
  \<open>else\<close>, so it also takes every chakra that is not 1 to 5.
\<close>

definition rg_first :: "int \<Rightarrow> error + (string \<times> int \<times> string \<times> int)" where
  "rg_first position =
     (case (if position \<le> 3 then py_index [''G1'', ''G2'', ''G3''] (position - 1)
            else py_index [''G1'', ''G2'', ''G3''] (position - 4)) of
        Inl e \<Rightarrow> Inl e
      | Inr G \<Rightarrow>
          (case py_index [3, 4, 4] (min (position - 1) 2) of
             Inl e \<Rightarrow> Inl e
           | Inr G_int \<Rightarrow> Inr (''R1'', 1, G, G_int)))"

definition rg_of_chakra :: "int \<Rightarrow> int \<Rightarrow> error + (string \<times> int \<times> string \<times> int)" where
  "rg_of_chakra chakra position =
     (if chakra = 1 then rg_first position
      else if chakra = 2 then rg_first position
      else if chakra = 3 then
        Inr (''R2'', 2, if position \<le> 3 then ''G2'' else ''G3'', if position \<le> 3 then 4 else 4)
      else if chakra = 4 then Inr (''R2'', 2, ''G3'', 4)
      else if chakra = 5 then Inr (''R3'', 3, ''G3'', 4)
      else Inr (''R3'', 3, ''G3'', 4))"

text \<open>The branch on the position of lines 116-133, giving \<open>(D, D_int, N, N_int)\<close>.\<close>

definition dn_of_position :: "int \<Rightarrow> string \<times> int \<times> string \<times> int" where
  "dn_of_position position =
     (if position = 1 then (''D1'', 8, ''N1'', 10)
      else if position = 2 then (''D1'', 8, ''N2'', 11)
      else if position = 3 then (''D1'', 8, ''N3'', 11)
      else if position = 4 then (''D2'', 9, ''N2'', 11)
      else if position = 5 then (''D2'', 9, ''N3'', 11)
      else (''D3'', 10, ''N3'', 11))"

text \<open>
  \<open>get_melakarta_structure\<close>: Python's \<open>//\<close> and \<open>%\<close> round towards minus infinity,
  as \<open>div\<close> and \<open>mod\<close> on \<open>int\<close> do.
\<close>

definition get_melakarta_structure :: "int \<Rightarrow> error + (string list \<times> int list)" where
  "get_melakarta_structure raga_number =
     (case madhyama raga_number of
        (M, M_int, adjusted_num) \<Rightarrow>
          let chakra = (adjusted_num - 1) div 6 + 1;
              position = (adjusted_num - 1) mod 6 + 1
          in (case rg_of_chakra chakra position of
                Inl e \<Rightarrow> Inl e
              | Inr (R, R_int, G, G_int) \<Rightarrow>
                  (case dn_of_position position of
                     (D, D_int, N, N_int) \<Rightarrow>
                       Inr ([''S'', R, G, M, ''P'', D, N],
                            [0, R_int, G_int, M_int, 7, D_int, N_int]))))"

text \<open>
  The body of the loop of \<open>test_known_ragas\<close>, lines 190-191: the structure, then the
  name looked up in the table.
\<close>

definition melakarta_entry :: "int \<Rightarrow> error + (string \<times> string list \<times> int list)" where
  "melakarta_entry num =
     (case get_melakarta_structure num of
        Inl e \<Rightarrow> Inl e
      | Inr (swaras, intervals) \<Rightarrow>
          (case py_index MELAKARTA_NAMES (num - 1) of
             Inl e \<Rightarrow> Inl e
           | Inr actual_name \<Rightarrow> Inr (actual_name, swaras, intervals)))"

text \<open>The expected triples of \<open>test_known_ragas\<close>, as an association list.\<close>

definition test_cases :: "(int \<times> string \<times> string list \<times> int list) list" where
  "test_cases =
    [(15, ''Mayamalavagowla'', [''S'', ''R1'', ''G3'', ''M1'', ''P'', ''D1'', ''N3''],
        [0, 1, 4, 5, 7, 8, 11]),
     (28, ''Harikambhoji'', [''S'', ''R2'', ''G3'', ''M1'', ''P'', ''D2'', ''N2''],
        [0, 2, 4, 5, 7, 9, 10]),
     (29, ''Dheerasankarabharanam'', [''S'', ''R2'', ''G3'', ''M1'', ''P'', ''D2'', ''N3''],
        [0, 2, 4, 5, 7, 9, 11]),
     (65, ''Mechakalyani'', [''S'', ''R2'', ''G3'', ''M2'', ''P'', ''D2'', ''N3''],
        [0, 2, 4, 6, 7, 9, 11]),
     (20, ''Natabhairavi'', [''S'', ''R2'', ''G2'', ''M1'', ''P'', ''D2'', ''N2''],
        [0, 2, 3, 5, 7, 9, 10])]"

section \<open>Raga detector (raga\_detector.py)\<close>

text \<open>
  A NumPy float is a number or NaN; \<open>None\<close> stands for NaN, and a number is given by its
  real value. The arithmetic of the detector is binary64 inside NumPy and librosa, and it
  is not rebuilt over the reals, where it would round nothing. Of
  \<open>extract_swara_distribution\<close> the integer part is modelled and the rounded operations
  are parameters. \<open>find_tonic\<close> (calls of \<open>np.histogram\<close>, \<open>np.argmax\<close> and
  \<open>librosa.hz_to_note\<close>) and \<open>match_raga\<close> (scores of \<open>np.corrcoef\<close>, ordered by
  \<open>sorted\<close>) return values that rounding decides, and they are not modelled.
\<close>

type_synonym npfloat = "real option"

subsection \<open>extract\_swara\_distribution\<close>

text \<open>
  \<open>np.bincount\<close> counts the occurrences of each value from 0 up to the largest one, in
  an array of at least \<open>minlength\<close> entries, and raises \<open>ValueError\<close> on a negative
  entry.
\<close>

definition bincount :: "int list \<Rightarrow> nat \<Rightarrow> error + int list" where
  "bincount xs minlength =
     (if \<exists>x \<in> set xs. x < 0 then Inl ValueError
      else Inr (map (\<lambda>k. int (count_list xs (int k)))
                  [0 ..< max minlength (if xs = [] then 0 else nat (Max (set xs) + 1))]))"

text \<open>
  Lines 85-91 compute in floating point, sample by sample, up to the conversion
  \<open>astype(int)\<close>; that part is the parameter \<open>to_int\<close>, from a sample and the tonic to
  the integer converted. The \<open>% 12\<close> that follows is on integers, where NumPy gives the
  remainder the sign of the divisor, as \<open>mod\<close> does. The division of line 95 is the
  parameter \<open>true_divide\<close>, from two integers to a float.
\<close>

definition extract_swara_distribution ::
  "(real \<Rightarrow> real \<Rightarrow> int) \<Rightarrow> (int \<Rightarrow> int \<Rightarrow> npfloat) \<Rightarrow> real list \<Rightarrow> real
     \<Rightarrow> error + npfloat list" where
  "extract_swara_distribution to_int true_divide f0_clean tonic_hz =
     (let semitones = map (\<lambda>f. to_int f tonic_hz mod 12) f0_clean
      in case bincount semitones 12 of
           Inl e \<Rightarrow> Inl e
         | Inr swara_dist \<Rightarrow>
             Inr (map (\<lambda>c. true_divide c (sum_list swara_dist)) swara_dist))"

section \<open>Properties of the rule engine\<close>

lemma position_cases:
  fixes p :: int
  assumes "1 \<le> p" "p \<le> 6"
  shows "p = 1 \<or> p = 2 \<or> p = 3 \<or> p = 4 \<or> p = 5 \<or> p = 6"
  using assms by arith

lemma rg_first_returns:
  assumes "1 \<le> p" "p \<le> 6"
  shows "\<exists>G G_int. rg_first p = Inr (''R1'', 1, G, G_int) \<and> (G_int = 3 \<or> G_int = 4)"
  using position_cases [OF assms] by (auto simp: rg_first_def)

lemma rg_of_chakra_returns:
  assumes "1 \<le> p" "p \<le> 6"
  shows "\<exists>R R_int G G_int. rg_of_chakra c p = Inr (R, R_int, G, G_int)
           \<and> 1 \<le> R_int \<and> R_int < G_int \<and> G_int \<le> 4"
  using rg_first_returns [OF assms] by (auto simp: rg_of_chakra_def)

lemma dn_of_position_bounds:
  "\<exists>D D_int N N_int. dn_of_position p = (D, D_int, N, N_int)
      \<and> 8 \<le> D_int \<and> D_int < N_int \<and> N_int \<le> 11"
  by (simp add: dn_of_position_def)

lemma madhyama_bounds:
  "\<exists>M M_int. madhyama n = (M, M_int, if n \<le> 36 then n else n - 36)
      \<and> 5 \<le> M_int \<and> M_int \<le> 6"
  by (simp add: madhyama_def)

text \<open>
  C1 (the code does not do this). At index 29 the table gives the published name, but the
  rule engine returns \<open>R3\<close> with interval 3 where \<open>test_known_ragas\<close> expects \<open>R2\<close>
  with interval 2: adjusted number 29 lies in chakra 5, whose branch is \<open>R3\<close>.
\<close>

theorem melakarta_entry_29:
  "melakarta_entry 29 =
     Inr (''Dheerasankarabharanam'', [''S'', ''R3'', ''G3'', ''M1'', ''P'', ''D2'', ''N3''],
          [0, 3, 4, 5, 7, 9, 11])
   \<and> map_of test_cases 29 =
     Some (''Dheerasankarabharanam'', [''S'', ''R2'', ''G3'', ''M1'', ''P'', ''D2'', ''N3''],
          [0, 2, 4, 5, 7, 9, 11])"
  by (simp add: melakarta_entry_def get_melakarta_structure_def madhyama_def rg_of_chakra_def
      dn_of_position_def MELAKARTA_NAMES_def test_cases_def)

text \<open>
  The same holds of every entry of \<open>test_cases\<close>: the name agrees with the table, the
  triple as a whole does not.
\<close>

lemma no_test_case_passes:
  "list_all (\<lambda>(num, expected). melakarta_entry num \<noteq> Inr expected
       \<and> (\<exists>sw iv. melakarta_entry num = Inr (fst expected, sw, iv))) test_cases"
  by (simp add: melakarta_entry_def get_melakarta_structure_def madhyama_def rg_of_chakra_def
      dn_of_position_def MELAKARTA_NAMES_def test_cases_def)

text \<open>
  C2. For every index from 1 to 72 the rule engine returns, and the interval sequence it
  returns has length 7, is strictly increasing, starts at 0 and stays within 0..11.
\<close>

theorem intervals_well_formed:
  assumes "1 \<le> i" "i \<le> 72"
  shows "\<exists>swaras intervals. get_melakarta_structure i = Inr (swaras, intervals)
           \<and> length intervals = 7 \<and> sorted_wrt (<) intervals \<and> intervals ! 0 = 0
           \<and> (\<forall>v \<in> set intervals. 0 \<le> v \<and> v \<le> 11)"
proof -
  obtain M M_int where m: "madhyama i = (M, M_int, if i \<le> 36 then i else i - 36)"
    and mb: "5 \<le> M_int" "M_int \<le> 6"
    using madhyama_bounds by blast
  define a where "a = (if i \<le> 36 then i else i - 36)"
  define p where "p = (a - 1) mod 6 + 1"
  have pr: "1 \<le> p" "p \<le> 6" by (simp_all add: p_def)
  obtain R R_int G G_int
    where rg: "rg_of_chakra ((a - 1) div 6 + 1) p = Inr (R, R_int, G, G_int)"
    and rgb: "1 \<le> R_int" "R_int < G_int" "G_int \<le> 4"
    using rg_of_chakra_returns [OF pr] by blast
  obtain D D_int N N_int where dn: "dn_of_position p = (D, D_int, N, N_int)"
    and dnb: "8 \<le> D_int" "D_int < N_int" "N_int \<le> 11"
    using dn_of_position_bounds by blast
  have "get_melakarta_structure i =
          Inr ([''S'', R, G, M, ''P'', D, N], [0, R_int, G_int, M_int, 7, D_int, N_int])"
    using m rg dn by (simp add: get_melakarta_structure_def a_def p_def Let_def)
  then show ?thesis using mb rgb dnb by auto
qed

theorem intervals_well_formed_witness:
  "(1::int) \<le> 29 \<and> (29::int) \<le> 72 \<and>
   (\<exists>swaras intervals. get_melakarta_structure 29 = Inr (swaras, intervals)
      \<and> length intervals = 7 \<and> sorted_wrt (<) intervals \<and> intervals ! 0 = 0
      \<and> (\<forall>v \<in> set intervals. 0 \<le> v \<and> v \<le> 11))"
  using intervals_well_formed [of 29] by simp

text \<open>
  C3 as stated fails: the function has no range check, and at 0 and at 73 it returns a
  structure.
\<close>

theorem out_of_range_returns_counterexample:
  "get_melakarta_structure 0 =
      Inr ([''S'', ''R3'', ''G3'', ''M1'', ''P'', ''D3'', ''N3''], [0, 3, 4, 5, 7, 10, 11])
   \<and> get_melakarta_structure 73 =
      Inr ([''S'', ''R3'', ''G3'', ''M2'', ''P'', ''D1'', ''N1''], [0, 3, 4, 6, 7, 8, 10])"
  by (simp add: get_melakarta_structure_def madhyama_def rg_of_chakra_def dn_of_position_def)

text \<open>
  C3, amended. For every integer index outside 1..72 the function raises nothing and
  returns a seven-note structure: the chakra computed from the index is none of 1..5, so
  the final \<open>else\<close> branch gives \<open>R3\<close> and \<open>G3\<close>; the madhyama is \<open>M1\<close> below 1 and
  \<open>M2\<close> above 72; \<open>D\<close> and \<open>N\<close> come from the position as within the range.
\<close>

theorem out_of_range_returns:
  assumes "i < 1 \<or> 72 < i"
  shows "get_melakarta_structure i =
           (case dn_of_position (((if i < 1 then i else i - 36) - 1) mod 6 + 1) of
              (D, D_int, N, N_int) \<Rightarrow>
                Inr ([''S'', ''R3'', ''G3'', if i < 1 then ''M1'' else ''M2'', ''P'', D, N],
                     [0, 3, 4, if i < 1 then 5 else 6, 7, D_int, N_int]))"
proof -
  define a where "a = (if i \<le> 36 then i else i - 36)"
  have a: "a = (if i < 1 then i else i - 36)"
    using assms by (auto simp: a_def)
  have "(a - 1) div 6 + 1 \<le> 0 \<or> 7 \<le> (a - 1) div 6 + 1"
    using assms by (auto simp: a_def)
  then have rg: "rg_of_chakra ((a - 1) div 6 + 1) p = Inr (''R3'', 3, ''G3'', 4)" for p
    by (auto simp: rg_of_chakra_def)
  have m: "madhyama i = (if i < 1 then ''M1'' else ''M2'', if i < 1 then 5 else 6, a)"
    using assms by (auto simp: madhyama_def a_def)
  show ?thesis
    unfolding get_melakarta_structure_def m using rg
    by (simp add: Let_def a split: prod.splits)
qed

theorem out_of_range_returns_witness:
  "((0::int) < 1 \<or> 72 < (0::int)) \<and>
   get_melakarta_structure 0 =
     Inr ([''S'', ''R3'', ''G3'', ''M1'', ''P'', ''D3'', ''N3''], [0, 3, 4, 5, 7, 10, 11])"
  using out_of_range_returns [of 0] by (simp add: dn_of_position_def)

text \<open>
  C9 (the code does not do this). The label \<open>G1\<close> is paired with interval 3 at index 1
  and with interval 4 at index 4: in chakras 1 and 2 the label list is subscripted with
  \<open>position - 4\<close> for positions above 3, the interval list with \<open>min (position - 1) 2\<close>.
\<close>

theorem g1_two_intervals:
  "get_melakarta_structure 1 =
      Inr ([''S'', ''R1'', ''G1'', ''M1'', ''P'', ''D1'', ''N1''], [0, 1, 3, 5, 7, 8, 10])
   \<and> get_melakarta_structure 4 =
      Inr ([''S'', ''R1'', ''G1'', ''M1'', ''P'', ''D2'', ''N2''], [0, 1, 4, 5, 7, 9, 11])"
  by (simp add: get_melakarta_structure_def madhyama_def rg_of_chakra_def rg_first_def
      dn_of_position_def)

section \<open>Properties of the swara distribution\<close>

lemma bincount_classes:
  assumes "\<forall>x \<in> set xs. 0 \<le> x \<and> x < 12"
  shows "bincount xs 12 = Inr (map (\<lambda>k. int (count_list xs (int k))) [0 ..< 12])"
proof -
  have "max 12 (if xs = [] then 0 else nat (Max (set xs) + 1)) = 12"
  proof (cases "xs = []")
    case True
    then show ?thesis by simp
  next
    case False
    then have "Max (set xs) \<in> set xs" by (intro Max_in) simp_all
    then have "Max (set xs) < 12" using assms by blast
    then have "nat (Max (set xs) + 1) \<le> 12" by linarith
    then show ?thesis using False by (simp only: if_False max_absorb1)
  qed
  moreover have "\<not> (\<exists>x \<in> set xs. x < 0)" using assms by force
  ultimately show ?thesis unfolding bincount_def by simp
qed

lemma sum_counts_classes:
  assumes "\<forall>x \<in> set xs. 0 \<le> x \<and> x < 12"
  shows "sum_list (map (\<lambda>k. int (count_list xs (int k))) [0 ..< 12]) = int (length xs)"
proof -
  have sub: "set xs \<subseteq> int ` {0 ..< 12}"
  proof
    fix x assume "x \<in> set xs"
    then have "0 \<le> x" "x < 12" using assms by auto
    then have "x = int (nat x)" "nat x \<in> {0 ..< 12}" by auto
    then show "x \<in> int ` {0 ..< 12}" by blast
  qed
  have "sum_list (map (\<lambda>k. int (count_list xs (int k))) [0 ..< 12])
          = (\<Sum>k \<in> {0 ..< 12}. int (count_list xs (int k)))"
    by (simp add: interv_sum_list_conv_sum_set_nat)
  also have "\<dots> = int (\<Sum>k \<in> {0 ..< 12}. count_list xs (int k))" by simp
  also have "(\<Sum>k \<in> {0 ..< 12}. count_list xs (int k)) = sum (count_list xs) (int ` {0 ..< 12})"
    by (simp add: sum.reindex)
  also have "\<dots> = length xs" using sub by (intro sum_count_set) simp_all
  finally show ?thesis .
qed

lemma count_le_length: "count_list xs k \<le> length xs"
  by (induction xs) auto

lemma of_int_sum_list_map: "real_of_int (sum_list cs) = sum_list (map real_of_int cs)"
  by (induction cs) simp_all

lemma rounded_quotients_sum:
  fixes q :: "int \<Rightarrow> real"
  assumes n: "0 < n" "sum_list cs = n"
    and q: "\<And>c. c \<in> set cs \<Longrightarrow> \<bar>q c - real_of_int c / real_of_int n\<bar> \<le> (real_of_int c / real_of_int n) / 2 ^ 50"
  shows "\<bar>sum_list (map q cs) - 1\<bar> \<le> 1 / 2 ^ 50"
proof -
  have one: "sum_list (map (\<lambda>c. real_of_int c / real_of_int n) cs) = 1"
  proof -
    have "sum_list (map (\<lambda>c. real_of_int c / real_of_int n) cs)
            = sum_list (map (\<lambda>c. real_of_int c * (1 / real_of_int n)) cs)" by simp
    also have "\<dots> = sum_list (map real_of_int cs) * (1 / real_of_int n)"
      by (rule sum_list_mult_const)
    also have "\<dots> = real_of_int n * (1 / real_of_int n)"
      using n(2) by (simp add: of_int_sum_list_map [symmetric])
    also have "\<dots> = 1" using n(1) by simp
    finally show ?thesis .
  qed
  have "sum_list (map q cs) - 1
          = sum_list (map (\<lambda>c. q c - real_of_int c / real_of_int n) cs)"
    by (simp add: sum_list_subtractf one)
  also have "\<bar>\<dots>\<bar> \<le> sum_list (map (\<lambda>c. \<bar>q c - real_of_int c / real_of_int n\<bar>) cs)"
    using sum_list_abs [of "map (\<lambda>c. q c - real_of_int c / real_of_int n) cs"]
    by (simp add: comp_def)
  also have "\<dots> \<le> sum_list (map (\<lambda>c. (real_of_int c / real_of_int n) * (1 / 2 ^ 50)) cs)"
    using q by (intro sum_list_mono) simp
  also have "\<dots> = sum_list (map (\<lambda>c. real_of_int c / real_of_int n) cs) * (1 / 2 ^ 50)"
    by (rule sum_list_mult_const)
  also have "\<dots> = 1 / 2 ^ 50" by (simp add: one)
  finally show ?thesis .
qed

text \<open>
  C6. For a non-empty sequence of samples the distribution has exactly 12 entries, none
  of them NaN, and they sum to 1 within \<open>1 / 10 ^ 9\<close>. The theorem holds for every result
  of the floating-point conversion to integers, and for every division whose quotient of
  \<open>0 \<le> c \<le> n\<close>, \<open>0 < n\<close> is within the relative error \<open>1 / 2 ^ 50\<close> of \<open>c / n\<close>, which
  a binary64 division of two converted 64-bit integers is.
\<close>

theorem swara_distribution_normalised:
  assumes nonempty: "f0_clean \<noteq> []"
    and division: "\<forall>c n. 0 \<le> c \<and> c \<le> n \<and> 0 < n \<longrightarrow>
            (\<exists>q. true_divide c n = Some q
                \<and> \<bar>q - real_of_int c / real_of_int n\<bar> \<le> (real_of_int c / real_of_int n) / 2 ^ 50)"
  shows "\<exists>dist. extract_swara_distribution to_int true_divide f0_clean tonic_hz = Inr (map Some dist)
            \<and> length dist = 12 \<and> \<bar>sum_list dist - 1\<bar> \<le> 1 / 10 ^ 9"
proof -
  define semitones where "semitones = map (\<lambda>f. to_int f tonic_hz mod 12) f0_clean"
  define counts where "counts = map (\<lambda>k. int (count_list semitones (int k))) [0 ..< 12]"
  define n where "n = int (length f0_clean)"
  define q where "q = (\<lambda>c. the (true_divide c n))"
  have classes: "\<forall>x \<in> set semitones. 0 \<le> x \<and> x < 12"
    by (auto simp: semitones_def)
  have bc: "bincount semitones 12 = Inr counts"
    unfolding counts_def by (rule bincount_classes [OF classes])
  have total: "sum_list counts = n"
    unfolding counts_def n_def using sum_counts_classes [OF classes]
    by (simp add: semitones_def)
  have npos: "0 < n" using nonempty by (simp add: n_def)
  have range: "0 \<le> c \<and> c \<le> n" if "c \<in> set counts" for c
  proof -
    from that obtain k where "c = int (count_list semitones (int k))"
      by (auto simp: counts_def)
    then show ?thesis
      using count_le_length [of semitones "int k"] by (simp add: n_def semitones_def)
  qed
  have qs: "true_divide c n = Some (q c)
      \<and> \<bar>q c - real_of_int c / real_of_int n\<bar> \<le> (real_of_int c / real_of_int n) / 2 ^ 50"
    if "c \<in> set counts" for c
    using division range [OF that] npos unfolding q_def by (metis option.sel)
  have "extract_swara_distribution to_int true_divide f0_clean tonic_hz
          = Inr (map (\<lambda>c. true_divide c n) counts)"
    unfolding extract_swara_distribution_def Let_def semitones_def [symmetric] bc
    by (simp add: total)
  also have "map (\<lambda>c. true_divide c n) counts = map Some (map q counts)"
    using qs by simp
  finally have res: "extract_swara_distribution to_int true_divide f0_clean tonic_hz
          = Inr (map Some (map q counts))" .
  have len: "length (map q counts) = 12" by (simp add: counts_def)
  have "\<bar>sum_list (map q counts) - 1\<bar> \<le> 1 / 2 ^ 50"
    using qs by (intro rounded_quotients_sum [OF npos total]) simp
  also have "(1::real) / 2 ^ 50 \<le> 1 / 10 ^ 9" by simp
  finally show ?thesis using res len by blast
qed

text \<open>
  The instance: three samples, the tonic 440, a conversion that takes the floor of
  \<open>12 * f / t\<close>, and the exact quotient as the division (relative error 0).
\<close>

theorem swara_distribution_normalised_witness:
  "[440, 660, 880] \<noteq> ([]::real list)
   \<and> (\<exists>dist. extract_swara_distribution (\<lambda>f t. \<lfloor>12 * f / t\<rfloor>)
                 (\<lambda>c n. if n = 0 then None else Some (real_of_int c / real_of_int n))
                 [440, 660, 880] 440 = Inr (map Some dist)
          \<and> length dist = 12 \<and> \<bar>sum_list dist - 1\<bar> \<le> 1 / 10 ^ 9)"
proof -
  have d: "\<forall>c n. 0 \<le> c \<and> c \<le> n \<and> 0 < n \<longrightarrow>
        (\<exists>q. (if n = 0 then None else Some (real_of_int c / real_of_int n)) = Some q
            \<and> \<bar>q - real_of_int c / real_of_int n\<bar> \<le> (real_of_int c / real_of_int n) / 2 ^ 50)"
    by auto
  have ne: "[440, 660, 880] \<noteq> ([]::real list)" by simp
  show ?thesis
    using swara_distribution_normalised [OF ne d, of "\<lambda>f t. \<lfloor>12 * f / t\<rfloor>" 440] ne by blast
qed

end
